theory Spec2Isabelle
  imports Main "HOL-Library.Sublist"
begin

section \<open>Python values used by \<open>multi_tool_agent/agent.py\<close>\<close>

subsection \<open>Strings\<close>

text \<open>
  A Python \<open>str\<close> is a sequence of Unicode code points, so a string is a list of
  natural numbers here. \<open>ord\<close> is Python's \<open>ord\<close> on an ASCII character and \<open>str\<close>
  turns an ASCII literal of the source into its code points.
\<close>

type_synonym pystr = "nat list"

definition ord :: "char \<Rightarrow> nat" where
  "ord c = of_char c"

definition str :: "string \<Rightarrow> pystr" where
  "str s = map ord s"

text \<open>The apostrophe, which the source writes inside double-quoted literals.\<close>

definition apostrophe :: pystr where
  "apostrophe = [39]"

subsection \<open>Dictionaries and exceptions\<close>

text \<open>
  Both tools return a \<open>dict\<close> literal with string keys and string values. A dictionary is
  the association list of its items, in the order the literal writes them; \<open>map_of\<close> is
  the lookup \<open>d[k]\<close> (\<open>None\<close> when the key is absent).
\<close>

type_synonym dict = "(pystr \<times> pystr) list"

text \<open>The only exception the module can let escape: \<open>ZoneInfo(key)\<close> finds no data.\<close>

datatype exn = ZoneInfoNotFoundError pystr

subsection \<open>Time zone objects and aware datetimes\<close>

text \<open>
  \<open>ZoneInfo(key)\<close> yields a time zone object, identified by its key.
  \<open>datetime.datetime.now(tz)\<close> yields an aware datetime; the record keeps the fields
  that the format string of the source reads: the civil date and time, and what the
  zone says for that moment, its abbreviation (\<open>now.tzname()\<close>) and its offset from
  UTC in seconds (\<open>now.utcoffset()\<close>).
\<close>

datatype tzinfo = ZoneInfo_object pystr

record datetime =
  year :: nat
  month :: nat
  day :: nat
  hour :: nat
  minute :: nat
  second :: nat
  tzname :: pystr
  utcoffset :: int

subsection \<open>The runtime\<close>

text \<open>
  What the module takes from the interpreter and the machine it runs on:
  \<^item> \<open>unicode_lower\<close>: the Unicode lower-casing that \<open>str.lower\<close> applies to a
    string with a code point outside ASCII (a table of the interpreter, left open);
  \<^item> \<open>ZoneInfo\<close>: the time zone database, \<open>None\<close> where \<open>ZoneInfo(key)\<close> raises
    \<open>ZoneInfoNotFoundError\<close>;
  \<^item> \<open>datetime_now\<close>: the system clock read through a zone, that is the value of
    \<open>datetime.datetime.now(tz)\<close> at the moment of the call. The clock is taken to
    be within the years that a \<open>datetime\<close> can hold, so that reading it does not fail.
  Two calls at different moments run in two runtimes, which differ in the clock.
\<close>

record runtime =
  unicode_lower :: "pystr \<Rightarrow> pystr"
  ZoneInfo :: "pystr \<Rightarrow> tzinfo option"
  datetime_now :: "tzinfo \<Rightarrow> datetime"

subsection \<open>\<open>str.lower\<close>\<close>

text \<open>
  On an ASCII string \<open>str.lower\<close> maps \<open>A\<close>..\<open>Z\<close> to \<open>a\<close>..\<open>z\<close> and keeps every other
  character; any other string goes through the interpreter's Unicode tables.
\<close>

definition is_ascii :: "pystr \<Rightarrow> bool" where
  "is_ascii s = list_all (\<lambda>c. c < 128) s"

definition ascii_lower :: "nat \<Rightarrow> nat" where
  "ascii_lower c = (if 65 \<le> c \<and> c \<le> 90 then c + 32 else c)"

definition lower :: "runtime \<Rightarrow> pystr \<Rightarrow> pystr" where
  "lower rt s = (if is_ascii s then map ascii_lower s else unicode_lower rt s)"

subsection \<open>\<open>datetime.strftime\<close>\<close>

text \<open>
  \<open>dec n\<close> is the decimal numeral of \<open>n\<close> and \<open>fmt_d w n\<close> is C's \<open>%0wd\<close>: at least \<open>w\<close>
  digits, padded with zeros on the left. \<open>%Y\<close> is the year with four digits, as the
  library documents it; platforms differ on the padding of a year below 1000, and every
  statement below about a rendered year is for a clock from the year 1000 on.
\<close>

fun dec :: "nat \<Rightarrow> pystr" where
  "dec n = (if n < 10 then [48 + n] else dec (n div 10) @ [48 + n mod 10])"

declare dec.simps [simp del]

definition fmt_d :: "nat \<Rightarrow> nat \<Rightarrow> pystr" where
  "fmt_d w n = replicate (w - length (dec n)) 48 @ dec n"

text \<open>
  \<open>%z\<close>: the sign, then hours and minutes of the offset, two digits each, and the
  seconds only when they are not zero.
\<close>

definition format_offset :: "int \<Rightarrow> pystr" where
  "format_offset off =
     (let sign = (if off < 0 then ord CHR ''-'' else ord CHR ''+'');
          a = nat \<bar>off\<bar>;
          hh = a div 3600;
          mm = a mod 3600 div 60;
          ss = a mod 60
      in [sign] @ fmt_d 2 hh @ fmt_d 2 mm @ (if ss \<noteq> 0 then fmt_d 2 ss else []))"

text \<open>
  The directives that the source's format string uses. Any other character after
  \<open>%\<close> is outside the model and is left as written.
\<close>

definition directive :: "datetime \<Rightarrow> nat \<Rightarrow> pystr" where
  "directive dt ch =
     (if ch = ord CHR ''Y'' then fmt_d 4 (year dt)
      else if ch = ord CHR ''m'' then fmt_d 2 (month dt)
      else if ch = ord CHR ''d'' then fmt_d 2 (day dt)
      else if ch = ord CHR ''H'' then fmt_d 2 (hour dt)
      else if ch = ord CHR ''M'' then fmt_d 2 (minute dt)
      else if ch = ord CHR ''S'' then fmt_d 2 (second dt)
      else if ch = ord CHR ''Z'' then tzname dt
      else if ch = ord CHR ''z'' then format_offset (utcoffset dt)
      else [ord CHR ''%'', ch])"

fun strftime :: "datetime \<Rightarrow> pystr \<Rightarrow> pystr" where
  "strftime dt [] = []"
| "strftime dt [c] = [c]"
| "strftime dt (c # d # rest) =
     (if c = ord CHR ''%'' then directive dt d @ strftime dt rest
      else c # strftime dt (d # rest))"

section \<open>The two tools\<close>

text \<open>
  \<open>get_weather\<close> and \<open>get_current_time\<close> of \<open>agent.py\<close>. Each runs in the runtime of
  the process; an f-string is the concatenation of its pieces.
\<close>

definition get_weather :: "runtime \<Rightarrow> pystr \<Rightarrow> dict" where
  "get_weather rt city =
     (if lower rt city = str ''new york'' then
        [(str ''status'', str ''success''),
         (str ''report'',
            str ''The weather in New York is sunny with a temperature of 25 degrees''
            @ str '' Celsius (77 degrees Fahrenheit).'')]
      else
        [(str ''status'', str ''error''),
         (str ''error_message'',
            str ''Weather information for '' @ apostrophe @ city @ apostrophe
            @ str '' is not available.'')])"

definition get_current_time :: "runtime \<Rightarrow> pystr \<Rightarrow> exn + dict" where
  "get_current_time rt city =
     (if lower rt city = str ''new york'' then
        (let tz_identifier = str ''America/New_York'' in
         case ZoneInfo rt tz_identifier of
           None \<Rightarrow> Inl (ZoneInfoNotFoundError tz_identifier)
         | Some tz \<Rightarrow>
             (let now = datetime_now rt tz;
                  report = str ''The current time in '' @ city @ str '' is ''
                           @ strftime now (str ''%Y-%m-%d %H:%M:%S %Z%z'')
              in Inr [(str ''status'', str ''success''), (str ''report'', report)]))
      else
        Inr [(str ''status'', str ''error''),
             (str ''error_message'',
                str ''Sorry, I don't have timezone information for '' @ city @ str ''.'')])"

section \<open>The result shape of the specification\<close>

text \<open>
  The two variants of \<open>LookupResult\<close>, as the dictionaries that carry them.
\<close>

definition Success :: "pystr \<Rightarrow> dict" where
  "Success report = [(str ''status'', str ''success''), (str ''report'', report)]"

definition Error :: "pystr \<Rightarrow> dict" where
  "Error error_message =
     [(str ''status'', str ''error''), (str ''error_message'', error_message)]"

text \<open>
  What a caller sees of a returned dictionary: its keys, and whether it is populated
  as the success variant (status \<open>success\<close> and, besides the status, the report only)
  or as the error variant (status \<open>error\<close> and the error message only).
\<close>

definition keys :: "dict \<Rightarrow> pystr list" where
  "keys d = map fst d"

definition success_populated :: "dict \<Rightarrow> bool" where
  "success_populated d \<longleftrightarrow>
     map_of d (str ''status'') = Some (str ''success'') \<and>
     distinct (keys d) \<and> set (keys d) = {str ''status'', str ''report''}"

definition error_populated :: "dict \<Rightarrow> bool" where
  "error_populated d \<longleftrightarrow>
     map_of d (str ''status'') = Some (str ''error'') \<and>
     distinct (keys d) \<and> set (keys d) = {str ''status'', str ''error_message''}"

definition exactly_one_variant :: "dict \<Rightarrow> bool" where
  "exactly_one_variant d \<longleftrightarrow> success_populated d \<noteq> error_populated d"

text \<open>
  Two strings differ only in letter case when they have the same length and, position
  by position, hold the same character or the two cases of one ASCII letter.
\<close>

definition is_upper :: "nat \<Rightarrow> bool" where
  "is_upper c \<longleftrightarrow> 65 \<le> c \<and> c \<le> 90"



section \<open>Timestamps\<close>

subsection \<open>The shape of a rendered time\<close>

text \<open>
  A clock reading that the format string renders with fields of fixed width: a year of
  four digits, the other fields within the ranges of a \<open>datetime\<close>, and an offset of
  less than a day.
\<close>

definition is_digit :: "nat \<Rightarrow> bool" where
  "is_digit c \<longleftrightarrow> 48 \<le> c \<and> c \<le> 57"

definition is_sign :: "nat \<Rightarrow> bool" where
  "is_sign c \<longleftrightarrow> c = ord CHR ''+'' \<or> c = ord CHR ''-''"

definition valid_now :: "datetime \<Rightarrow> bool" where
  "valid_now dt \<longleftrightarrow>
     1000 \<le> year dt \<and> year dt \<le> 9999 \<and>
     1 \<le> month dt \<and> month dt \<le> 12 \<and>
     1 \<le> day dt \<and> day dt \<le> 31 \<and>
     hour dt < 24 \<and> minute dt < 60 \<and> second dt < 60 \<and>
     \<bar>utcoffset dt\<bar> < 86400"

text \<open>
  The short name of a zone as the pattern of the specification expects it: three or
  four capital letters (\<open>EST\<close> and \<open>EDT\<close> for New York).
\<close>

definition short_zone_name :: "pystr \<Rightarrow> bool" where
  "short_zone_name s \<longleftrightarrow> (length s = 3 \<or> length s = 4) \<and> list_all is_upper s"

text \<open>
  The pattern of the specification,
  \<^verbatim>\<open>\d{4}-\d{2}-\d{2} \d{2}:\d{2}:\d{2} [A-Z]{3,4}[+-]\d{4}\<close>,
  as a list of character classes, one for each character of the text; \<open>k\<close> is the
  number of letters of the zone name. \<open>matches\<close> is a match of the whole text.
\<close>

datatype char_class = Digit | Upper | Sign | Lit nat

fun in_class :: "char_class \<Rightarrow> nat \<Rightarrow> bool" where
  "in_class Digit c = is_digit c"
| "in_class Upper c = is_upper c"
| "in_class Sign c = is_sign c"
| "in_class (Lit k) c = (c = k)"

definition matches :: "char_class list \<Rightarrow> pystr \<Rightarrow> bool" where
  "matches p s = list_all2 in_class p s"

definition timestamp_pattern :: "nat \<Rightarrow> char_class list" where
  "timestamp_pattern k =
     replicate 4 Digit @ [Lit (ord CHR ''-'')] @ replicate 2 Digit @ [Lit (ord CHR ''-'')]
     @ replicate 2 Digit @ [Lit (ord CHR '' '')]
     @ replicate 2 Digit @ [Lit (ord CHR '':'')] @ replicate 2 Digit @ [Lit (ord CHR '':'')]
     @ replicate 2 Digit @ [Lit (ord CHR '' '')]
     @ replicate k Upper @ [Sign] @ replicate 4 Digit"

definition matches_time_report :: "pystr \<Rightarrow> bool" where
  "matches_time_report r \<longleftrightarrow>
     matches (map Lit (str ''The current time in New York is '') @ timestamp_pattern 3) r \<or>
     matches (map Lit (str ''The current time in New York is '') @ timestamp_pattern 4) r"

subsection \<open>The instant of a datetime\<close>

text \<open>
  The proleptic Gregorian ordinal of a date, computed as \<open>datetime\<close> does
  (\<open>_days_before_year\<close>, \<open>_days_before_month\<close>, \<open>_ymd2ord\<close>; day 719163 is
  1970-01-01), and the POSIX timestamp of an aware datetime in whole seconds: its civil
  time counted in seconds, minus its offset from UTC.
\<close>

definition is_leap :: "nat \<Rightarrow> bool" where
  "is_leap y \<longleftrightarrow> y mod 4 = 0 \<and> (y mod 100 \<noteq> 0 \<or> y mod 400 = 0)"

definition days_before_year :: "nat \<Rightarrow> nat" where
  "days_before_year y = (let y' = y - 1 in y' * 365 + y' div 4 - y' div 100 + y' div 400)"

definition days_before_month :: "nat \<Rightarrow> nat \<Rightarrow> nat" where
  "days_before_month y m =
     sum_list (take (m - 1) [31, 28, 31, 30, 31, 30, 31, 31, 30, 31, 30, 31])
     + (if 2 < m \<and> is_leap y then 1 else 0)"

definition ymd2ord :: "nat \<Rightarrow> nat \<Rightarrow> nat \<Rightarrow> nat" where
  "ymd2ord y m d = days_before_year y + days_before_month y m + d"

definition civil_seconds :: "nat \<Rightarrow> nat \<Rightarrow> nat \<Rightarrow> nat \<Rightarrow> nat \<Rightarrow> nat \<Rightarrow> int" where
  "civil_seconds y mo d h mi s =
     (int (ymd2ord y mo d) - 719163) * 86400 + int (h * 3600 + mi * 60 + s)"

definition posix_timestamp :: "datetime \<Rightarrow> int" where
  "posix_timestamp dt =
     civil_seconds (year dt) (month dt) (day dt) (hour dt) (minute dt) (second dt)
     - utcoffset dt"

subsection \<open>Reading a rendered time back\<close>

text \<open>
  The instant that a text \<open>YYYY-MM-DD HH:MM:SS\<close>, a zone name and an offset
  \<open>+HHMM\<close> or \<open>+HHMMSS\<close> denote: the offset is found from the end of the text, the
  civil fields at their fixed places, and the instant is the civil time minus the
  offset. \<open>None\<close> when the text has another shape.
\<close>

definition digits_value :: "pystr \<Rightarrow> nat option" where
  "digits_value s =
     (if s \<noteq> [] \<and> list_all is_digit s
      then Some (foldl (\<lambda>a c. 10 * a + (c - 48)) 0 s) else None)"

definition read_offset :: "pystr \<Rightarrow> int option" where
  "read_offset s =
     (case s of
        [] \<Rightarrow> None
      | sg # ds \<Rightarrow>
          if is_sign sg \<and> (length ds = 4 \<or> length ds = 6) then
            (case (digits_value (take 2 ds), digits_value (take 2 (drop 2 ds)),
                   if length ds = 6 then digits_value (drop 4 ds) else Some 0) of
               (Some hh, Some mm, Some ss) \<Rightarrow>
                 Some ((if sg = ord CHR ''-'' then - 1 else 1) * int (hh * 3600 + mm * 60 + ss))
             | _ \<Rightarrow> None)
          else None)"

definition split_offset :: "pystr \<Rightarrow> (pystr \<times> pystr) option" where
  "split_offset ts =
     (let n = length ts in
      if 5 \<le> n \<and> is_sign (ts ! (n - 5)) then Some (take (n - 5) ts, drop (n - 5) ts)
      else if 7 \<le> n \<and> is_sign (ts ! (n - 7)) then Some (take (n - 7) ts, drop (n - 7) ts)
      else None)"

definition read_civil :: "pystr \<Rightarrow> int option" where
  "read_civil s =
     (if 20 \<le> length s \<and> s ! 4 = ord CHR ''-'' \<and> s ! 7 = ord CHR ''-'' \<and>
         s ! 10 = ord CHR '' '' \<and> s ! 13 = ord CHR '':'' \<and> s ! 16 = ord CHR '':'' \<and>
         s ! 19 = ord CHR '' '' then
        (case (digits_value (take 4 s), digits_value (take 2 (drop 5 s)),
               digits_value (take 2 (drop 8 s)), digits_value (take 2 (drop 11 s)),
               digits_value (take 2 (drop 14 s)), digits_value (take 2 (drop 17 s))) of
           (Some y, Some mo, Some d, Some h, Some mi, Some sec) \<Rightarrow>
             Some (civil_seconds y mo d h mi sec)
         | _ \<Rightarrow> None)
      else None)"

definition timestamp_instant :: "pystr \<Rightarrow> int option" where
  "timestamp_instant ts =
     (case split_offset ts of
        None \<Rightarrow> None
      | Some (civil, offset) \<Rightarrow>
          (case (read_civil civil, read_offset offset) of
             (Some t, Some off) \<Rightarrow> Some (t - off)
           | _ \<Rightarrow> None))"

section \<open>Runtimes to evaluate the tools in\<close>

text \<open>
  The zone database knows \<open>America/New_York\<close> only, and the clock stands at the moment
  of the example in the docstring of \<open>get_current_time\<close>.
\<close>

definition docstring_now :: datetime where
  "docstring_now =
     \<lparr>year = 2023, month = 4, day = 1, hour = 14, minute = 30, second = 45,
      tzname = str ''EDT'', utcoffset = - 14400\<rparr>"

definition docstring_runtime :: runtime where
  "docstring_runtime =
     \<lparr>unicode_lower = (\<lambda>s. s),
      ZoneInfo = (\<lambda>key. if key = str ''America/New_York''
                         then Some (ZoneInfo_object key) else None),
      datetime_now = (\<lambda>tz. docstring_now)\<rparr>"

text \<open>The same machine without any time zone data installed.\<close>

definition no_tzdata_runtime :: runtime where
  "no_tzdata_runtime = docstring_runtime\<lparr>ZoneInfo := (\<lambda>key. None)\<rparr>"

text \<open>
  The last second of daylight saving time in New York in 2026 and the second after it,
  when the wall clock is set back by an hour; \<open>runtime_at\<close> is the machine with the
  clock at a given reading.
\<close>

definition before_fall_back :: datetime where
  "before_fall_back =
     \<lparr>year = 2026, month = 11, day = 1, hour = 1, minute = 59, second = 59,
      tzname = str ''EDT'', utcoffset = - 14400\<rparr>"

definition after_fall_back :: datetime where
  "after_fall_back =
     \<lparr>year = 2026, month = 11, day = 1, hour = 1, minute = 0, second = 0,
      tzname = str ''EST'', utcoffset = - 18000\<rparr>"

definition runtime_at :: "datetime \<Rightarrow> runtime" where
  "runtime_at dt = docstring_runtime\<lparr>datetime_now := (\<lambda>tz. dt)\<rparr>"






section \<open>Evaluation of literals\<close>

lemma lower_ascii: "is_ascii s \<Longrightarrow> lower rt s = map ascii_lower s"
  by (simp add: lower_def)

lemma lower_New_York: "lower rt (str ''New York'') = str ''new york''"
  by (simp add: lower_def is_ascii_def ascii_lower_def str_def ord_def)

lemma lower_sunny: "lower rt (str ''sunny'') = str ''sunny''"
  by (simp add: lower_def is_ascii_def ascii_lower_def str_def ord_def)

lemma lower_Beijing: "lower rt (str ''Beijing'') = str ''beijing''"
  by (simp add: lower_def is_ascii_def ascii_lower_def str_def ord_def)

lemma lower_Tokyo: "lower rt (str ''Tokyo'') = str ''tokyo''"
  by (simp add: lower_def is_ascii_def ascii_lower_def str_def ord_def)

lemma str_append: "str a @ str b = str (a @ b)"
  by (simp add: str_def)

section \<open>Substrings\<close>

text \<open>
  Python's \<open>x in s\<close> on strings is \<open>sublist x s\<close>. A word cannot lie across a
  character that it does not contain.
\<close>

lemma sublist_separator:
  assumes "q \<notin> set xs"
  shows "sublist xs (ps @ q # zs) \<longleftrightarrow> sublist xs ps \<or> sublist xs zs"
proof -
  have head: "sublist xs (q # zs) \<longleftrightarrow> sublist xs zs"
  proof (cases xs)
    case Nil
    then show ?thesis by simp
  next
    case (Cons x xs')
    with assms have "x \<noteq> q" by auto
    with Cons show ?thesis by (simp add: sublist_Cons_right)
  qed
  have across: "sublist xs ps"
    if "xs = xs1 @ xs2" "suffix xs1 ps" "prefix xs2 (q # zs)" for xs1 xs2
  proof (cases xs2)
    case Nil
    with that show ?thesis by simp
  next
    case (Cons y ys)
    with that(3) have "y = q" by simp
    with that(1) Cons assms show ?thesis by simp
  qed
  show ?thesis
    using across by (auto simp: sublist_append head)
qed

lemma sunny_not_in_weather_prefix:
  "\<not> sublist (str ''sunny'') (str ''Weather information for '')"
  by (simp add: str_def ord_def sublist_Cons_right)

lemma sunny_not_in_weather_suffix:
  "\<not> sublist (str ''sunny'') (str '' is not available.'')"
  by (simp add: str_def ord_def sublist_Cons_right)

lemma apostrophe_not_in_sunny: "39 \<notin> set (str ''sunny'')"
  by (simp add: str_def ord_def)

lemma sunny_in_weather_message:
  "sublist (str ''sunny'')
     (str ''Weather information for '' @ apostrophe @ c @ apostrophe
      @ str '' is not available.'')
   \<longleftrightarrow> sublist (str ''sunny'') c"
  using sunny_not_in_weather_prefix sunny_not_in_weather_suffix
  by (simp add: apostrophe_def sublist_separator [OF apostrophe_not_in_sunny])

section \<open>The weather tool\<close>

text \<open>
  C1. For every city whose lower-case form is \<open>new york\<close>, \<open>get_weather\<close> returns
  the success variant (status \<open>success\<close>) and its report is exactly the sentence
  "The weather in New York is sunny with a temperature of 25 degrees Celsius
  (77 degrees Fahrenheit)."
\<close>

theorem get_weather_new_york:
  "lower rt city = str ''new york'' \<Longrightarrow>
   get_weather rt city =
     Success (str ''The weather in New York is sunny with a temperature of 25 degrees Celsius (77 degrees Fahrenheit).'')"
  by (simp add: get_weather_def Success_def str_append)

theorem get_weather_new_york_witness:
  "lower docstring_runtime (str ''New York'') = str ''new york'' \<and>
   get_weather docstring_runtime (str ''New York'') =
     Success (str ''The weather in New York is sunny with a temperature of 25 degrees Celsius (77 degrees Fahrenheit).'')"
  by (rule conjI [OF lower_New_York get_weather_new_york [OF lower_New_York]])

text \<open>
  C2, as the code has it. For every city \<open>c\<close> whose lower-case form is not
  \<open>new york\<close>, \<open>get_weather\<close> returns the error variant with the message
  "Weather information for '" + c + "' is not available.", the input as it was given.
  The message contains \<open>c\<close>, and it contains the word "sunny" exactly when \<open>c\<close> itself
  does. For "Beijing" the message is "Weather information for 'Beijing' is not
  available."
\<close>

theorem get_weather_unsupported:
  "(lower rt c \<noteq> str ''new york'' \<longrightarrow>
      get_weather rt c =
        Error (str ''Weather information for '' @ apostrophe @ c @ apostrophe
               @ str '' is not available.'')
      \<and> sublist c (str ''Weather information for '' @ apostrophe @ c @ apostrophe
                    @ str '' is not available.'')
      \<and> (sublist (str ''sunny'')
            (str ''Weather information for '' @ apostrophe @ c @ apostrophe
             @ str '' is not available.'')
          \<longleftrightarrow> sublist (str ''sunny'') c))
   \<and> get_weather rt (str ''Beijing'') =
       Error (str ''Weather information for 'Beijing' is not available.'')"
proof (intro conjI impI)
  assume "lower rt c \<noteq> str ''new york''"
  then show "get_weather rt c =
      Error (str ''Weather information for '' @ apostrophe @ c @ apostrophe
             @ str '' is not available.'')"
    by (simp add: get_weather_def Error_def)
next
  have "sublist c ((str ''Weather information for '' @ apostrophe) @ c
                   @ (apostrophe @ str '' is not available.''))"
    by (rule sublist_appendI)
  then show "sublist c (str ''Weather information for '' @ apostrophe @ c @ apostrophe
                        @ str '' is not available.'')"
    by simp
next
  show "sublist (str ''sunny'')
          (str ''Weather information for '' @ apostrophe @ c @ apostrophe
           @ str '' is not available.'')
        \<longleftrightarrow> sublist (str ''sunny'') c"
    by (rule sunny_in_weather_message)
next
  have "lower rt (str ''Beijing'') \<noteq> str ''new york''"
    by (simp add: lower_Beijing) (simp add: str_def)
  then show "get_weather rt (str ''Beijing'') =
      Error (str ''Weather information for 'Beijing' is not available.'')"
    by (simp add: get_weather_def Error_def apostrophe_def) (simp add: str_def ord_def)
qed

theorem get_weather_unsupported_witness:
  "lower docstring_runtime (str ''Beijing'') \<noteq> str ''new york'' \<and>
   get_weather docstring_runtime (str ''Beijing'') =
     Error (str ''Weather information for '' @ apostrophe @ str ''Beijing'' @ apostrophe
            @ str '' is not available.'') \<and>
   \<not> sublist (str ''sunny'')
       (str ''Weather information for '' @ apostrophe @ str ''Beijing'' @ apostrophe
        @ str '' is not available.'')"
proof -
  have ne: "lower docstring_runtime (str ''Beijing'') \<noteq> str ''new york''"
    by (simp add: lower_Beijing) (simp add: str_def)
  have no: "\<not> sublist (str ''sunny'') (str ''Beijing'')"
    by (simp add: str_def ord_def sublist_Cons_right)
  from get_weather_unsupported [of docstring_runtime "str ''Beijing''"] ne no
  show ?thesis by blast
qed

text \<open>
  The city "sunny" is not New York, and the message that names it contains the word.
\<close>

theorem get_weather_sunny_counterexample:
  "lower docstring_runtime (str ''sunny'') \<noteq> str ''new york'' \<and>
   get_weather docstring_runtime (str ''sunny'') =
     Error (str ''Weather information for 'sunny' is not available.'') \<and>
   sublist (str ''sunny'') (str ''Weather information for 'sunny' is not available.'')"
proof (intro conjI)
  show ne: "lower docstring_runtime (str ''sunny'') \<noteq> str ''new york''"
    by (simp add: lower_sunny) (simp add: str_def)
  then show "get_weather docstring_runtime (str ''sunny'') =
      Error (str ''Weather information for 'sunny' is not available.'')"
    by (simp add: get_weather_def Error_def apostrophe_def) (simp add: str_def ord_def)
  show "sublist (str ''sunny'') (str ''Weather information for 'sunny' is not available.'')"
    by (simp add: str_def ord_def sublist_Cons_right)
qed

section \<open>The time tool on a city it does not know\<close>

lemma get_current_time_no_match:
  "lower rt c \<noteq> str ''new york'' \<Longrightarrow>
   get_current_time rt c =
     Inr (Error (str ''Sorry, I don't have timezone information for '' @ c @ str ''.''))"
  by (simp add: get_current_time_def Error_def)

lemma Tokyo_no_match: "lower rt (str ''Tokyo'') \<noteq> str ''new york''"
  by (simp add: lower_Tokyo) (simp add: str_def)

text \<open>
  C3. For every city \<open>c\<close> whose lower-case form is not \<open>new york\<close>,
  \<open>get_current_time\<close> returns the error variant with the message
  "Sorry, I don't have timezone information for " + c + ".", the input as it was given.
\<close>

theorem get_current_time_unsupported:
  "lower rt c \<noteq> str ''new york'' \<Longrightarrow>
   get_current_time rt c =
     Inr (Error (str ''Sorry, I don't have timezone information for '' @ c @ str ''.''))"
  by (rule get_current_time_no_match)

theorem get_current_time_unsupported_witness:
  "lower docstring_runtime (str ''Tokyo'') \<noteq> str ''new york'' \<and>
   get_current_time docstring_runtime (str ''Tokyo'') =
     Inr (Error (str ''Sorry, I don't have timezone information for Tokyo.''))"
proof -
  have "get_current_time docstring_runtime (str ''Tokyo'') =
      Inr (Error (str ''Sorry, I don't have timezone information for '' @ str ''Tokyo''
                  @ str ''.''))"
    by (rule get_current_time_unsupported [OF Tokyo_no_match])
  then show ?thesis
    using Tokyo_no_match by (simp add: str_append)
qed

section \<open>Result variants\<close>

lemma status_values_differ: "str ''success'' \<noteq> str ''error''"
  by (simp add: str_def ord_def)

lemma key_status_report: "str ''status'' \<noteq> str ''report''"
  by (simp add: str_def ord_def)

lemma key_status_error_message: "str ''status'' \<noteq> str ''error_message''"
  by (simp add: str_def ord_def)

lemma key_report_error_message: "str ''report'' \<noteq> str ''error_message''"
  by (simp add: str_def ord_def)

lemma Success_populated: "success_populated (Success r)" "\<not> error_populated (Success r)"
  using status_values_differ key_status_report
  by (auto simp: success_populated_def error_populated_def Success_def keys_def)

lemma Error_populated: "error_populated (Error m)" "\<not> success_populated (Error m)"
  using status_values_differ key_status_error_message
  by (auto simp: success_populated_def error_populated_def Error_def keys_def)

lemma Success_one_variant: "exactly_one_variant (Success r)"
  by (simp add: exactly_one_variant_def Success_populated)

lemma Error_one_variant: "exactly_one_variant (Error m)"
  by (simp add: exactly_one_variant_def Error_populated)

lemma get_weather_cases:
  "get_weather rt c =
     (if lower rt c = str ''new york''
      then Success (str ''The weather in New York is sunny with a temperature of 25 degrees Celsius (77 degrees Fahrenheit).'')
      else Error (str ''Weather information for '' @ apostrophe @ c @ apostrophe
                  @ str '' is not available.''))"
  by (simp add: get_weather_def Success_def Error_def str_append)

lemma get_current_time_match:
  "lower rt c = str ''new york'' \<Longrightarrow>
   get_current_time rt c =
     (case ZoneInfo rt (str ''America/New_York'') of
        None \<Rightarrow> Inl (ZoneInfoNotFoundError (str ''America/New_York''))
      | Some tz \<Rightarrow>
          Inr (Success (str ''The current time in '' @ c @ str '' is ''
                        @ strftime (datetime_now rt tz) (str ''%Y-%m-%d %H:%M:%S %Z%z''))))"
  by (simp add: get_current_time_def Success_def split: option.split)

text \<open>
  C6. Every dictionary that \<open>get_weather\<close> or \<open>get_current_time\<close> returns, for every
  string, populates exactly one variant: status \<open>success\<close> with the report and no
  error message, or status \<open>error\<close> with the error message and no report; never both
  and never neither.
\<close>

theorem results_one_variant:
  "exactly_one_variant (get_weather rt c) \<and>
   (\<forall>d. get_current_time rt c = Inr d \<longrightarrow> exactly_one_variant d)"
proof (intro conjI allI impI)
  show "exactly_one_variant (get_weather rt c)"
    by (simp add: get_weather_cases Success_one_variant Error_one_variant)
next
  fix d
  assume r: "get_current_time rt c = Inr d"
  show "exactly_one_variant d"
  proof (cases "lower rt c = str ''new york''")
    case True
    with r show ?thesis
      by (auto simp: get_current_time_match Success_one_variant split: option.splits)
  next
    case False
    with r show ?thesis
      by (auto simp: get_current_time_no_match Error_one_variant)
  qed
qed

theorem results_one_variant_witness:
  "get_current_time docstring_runtime (str ''Tokyo'') =
     Inr (Error (str ''Sorry, I don't have timezone information for '' @ str ''Tokyo''
                 @ str ''.'')) \<and>
   exactly_one_variant
     (Error (str ''Sorry, I don't have timezone information for '' @ str ''Tokyo''
             @ str ''.''))"
  using results_one_variant [of docstring_runtime "str ''Tokyo''"]
    get_current_time_no_match [OF Tokyo_no_match, of docstring_runtime]
  by simp

lemma New_York_key_known:
  "ZoneInfo docstring_runtime (str ''America/New_York'')
     = Some (ZoneInfo_object (str ''America/New_York''))"
  by (simp add: docstring_runtime_def)

lemma New_York_key_unknown: "ZoneInfo no_tzdata_runtime (str ''America/New_York'') = None"
  by (simp add: no_tzdata_runtime_def)

lemma Success_not_Error: "Success r \<noteq> Error m"
  using status_values_differ by (simp add: Success_def Error_def)

text \<open>
  C7. \<open>get_weather\<close> never raises: for every string it returns one of the two
  variants. \<open>get_current_time\<close> returns the error variant, and does not raise, for
  every string that does not match. When it raises, the city matched and the time zone
  database had no entry for \<open>America/New_York\<close>: the exception is
  \<open>ZoneInfoNotFoundError\<close>.
\<close>

theorem unsupported_input_never_raises:
  "(\<exists>r. get_weather rt c = Success r \<or> get_weather rt c = Error r) \<and>
   (lower rt c \<noteq> str ''new york'' \<longrightarrow> (\<exists>m. get_current_time rt c = Inr (Error m))) \<and>
   (get_current_time rt c = Inl e \<longrightarrow>
      lower rt c = str ''new york'' \<and>
      ZoneInfo rt (str ''America/New_York'') = None \<and>
      e = ZoneInfoNotFoundError (str ''America/New_York''))"
proof (intro conjI impI)
  show "\<exists>r. get_weather rt c = Success r \<or> get_weather rt c = Error r"
    by (auto simp: get_weather_cases)
next
  assume "lower rt c \<noteq> str ''new york''"
  then show "\<exists>m. get_current_time rt c = Inr (Error m)"
    using get_current_time_no_match by blast
next
  assume raised: "get_current_time rt c = Inl e"
  show m: "lower rt c = str ''new york''"
  proof (rule ccontr)
    assume "lower rt c \<noteq> str ''new york''"
    with raised show False by (simp add: get_current_time_no_match)
  qed
  from raised m show "ZoneInfo rt (str ''America/New_York'') = None"
    by (simp add: get_current_time_match split: option.splits)
  from raised m show "e = ZoneInfoNotFoundError (str ''America/New_York'')"
    by (auto simp: get_current_time_match split: option.splits)
qed

lemma no_tzdata_raises:
  "get_current_time no_tzdata_runtime (str ''New York'')
     = Inl (ZoneInfoNotFoundError (str ''America/New_York''))"
  by (simp add: get_current_time_match [OF lower_New_York] New_York_key_unknown)

theorem unsupported_input_never_raises_witness:
  "lower docstring_runtime (str ''Tokyo'') \<noteq> str ''new york'' \<and>
   (\<exists>m. get_current_time docstring_runtime (str ''Tokyo'') = Inr (Error m)) \<and>
   get_current_time no_tzdata_runtime (str ''New York'')
     = Inl (ZoneInfoNotFoundError (str ''America/New_York'')) \<and>
   lower no_tzdata_runtime (str ''New York'') = str ''new york'' \<and>
   ZoneInfo no_tzdata_runtime (str ''America/New_York'') = None"
  using Tokyo_no_match [of docstring_runtime] no_tzdata_raises
    unsupported_input_never_raises [of docstring_runtime "str ''Tokyo''"]
    unsupported_input_never_raises [of no_tzdata_runtime "str ''New York''"
      "ZoneInfoNotFoundError (str ''America/New_York'')"]
  by blast

text \<open>
  C9. The two tools accept the same cities, those whose lower-case form is
  \<open>new york\<close>: \<open>get_weather\<close> returns the success variant exactly for them, and
  exactly for them \<open>get_current_time\<close> does not return the error variant. On a
  machine whose time zone database has \<open>America/New_York\<close> (the environment that the
  specification requires), one tool returns the success variant exactly when the other
  does.
\<close>

theorem tools_accept_the_same_cities:
  "((\<exists>r. get_weather rt c = Success r) \<longleftrightarrow> lower rt c = str ''new york'') \<and>
   ((\<exists>m. get_weather rt c = Error m) \<longleftrightarrow> (\<exists>m. get_current_time rt c = Inr (Error m))) \<and>
   ((\<exists>r. get_weather rt c = Success r) \<longleftrightarrow> (\<nexists>m. get_current_time rt c = Inr (Error m))) \<and>
   (ZoneInfo rt (str ''America/New_York'') \<noteq> None \<longrightarrow>
      ((\<exists>r. get_weather rt c = Success r) \<longleftrightarrow>
       (\<exists>r. get_current_time rt c = Inr (Success r))))"
proof (cases "lower rt c = str ''new york''")
  case True
  then show ?thesis
    using Success_not_Error
    by (auto simp: get_weather_cases get_current_time_match split: option.splits)
next
  case False
  then show ?thesis
    using Success_not_Error [symmetric]
    by (auto simp: get_weather_cases get_current_time_no_match)
qed

theorem tools_accept_the_same_cities_witness:
  "ZoneInfo docstring_runtime (str ''America/New_York'') \<noteq> None \<and>
   (\<exists>r. get_weather docstring_runtime (str ''New York'') = Success r) \<and>
   (\<exists>r. get_current_time docstring_runtime (str ''New York'') = Inr (Success r))"
proof -
  have known: "ZoneInfo docstring_runtime (str ''America/New_York'') \<noteq> None"
    by (simp add: New_York_key_known)
  from tools_accept_the_same_cities [of docstring_runtime "str ''New York''"] known
    lower_New_York [of docstring_runtime]
  show ?thesis by blast
qed

section \<open>Letter case\<close>






















section \<open>The rendered time\<close>

lemma str_append_left: "str a @ str b @ r = str (a @ b) @ r"
  by (simp add: str_def)

lemma strftime_format:
  "strftime dt (str ''%Y-%m-%d %H:%M:%S %Z%z'') =
     fmt_d 4 (year dt) @ str ''-'' @ fmt_d 2 (month dt) @ str ''-'' @ fmt_d 2 (day dt)
     @ str '' '' @ fmt_d 2 (hour dt) @ str '':'' @ fmt_d 2 (minute dt) @ str '':''
     @ fmt_d 2 (second dt) @ str '' '' @ tzname dt @ format_offset (utcoffset dt)"
  by (simp add: str_def ord_def directive_def)

lemma dec_digits: "list_all is_digit (dec n)"
proof (induction n rule: dec.induct)
  case (1 n)
  show ?case
  proof (cases "n < 10")
    case True
    then show ?thesis by (subst dec.simps) (simp add: is_digit_def)
  next
    case False
    have "n mod 10 < 10" by simp
    then have "is_digit (48 + n mod 10)" unfolding is_digit_def by linarith
    with False 1 show ?thesis by (subst dec.simps) simp
  qed
qed

lemma dec_length: "n < 10 ^ k \<Longrightarrow> 0 < k \<Longrightarrow> length (dec n) \<le> k"
proof (induction k arbitrary: n)
  case 0
  then show ?case by simp
next
  case (Suc k)
  show ?case
  proof (cases "n < 10")
    case True
    then show ?thesis by (subst dec.simps) simp
  next
    case False
    with Suc.prems have k: "0 < k" by (cases k) auto
    from Suc.prems have "n div 10 < 10 ^ k"
      by (simp add: less_mult_imp_div_less mult.commute)
    from Suc.IH [OF this k] False show ?thesis by (subst dec.simps) simp
  qed
qed

lemma dec_nonempty: "dec n \<noteq> []"
  by (subst dec.simps) simp

lemma fmt_d_length: "n < 10 ^ w \<Longrightarrow> 0 < w \<Longrightarrow> length (fmt_d w n) = w"
  using dec_length [of n w] by (simp add: fmt_d_def)

lemma fmt_d_digits: "list_all is_digit (fmt_d w n)"
proof -
  have "list_all is_digit (replicate k 48)" for k
    by (induction k) (simp_all add: is_digit_def)
  then show ?thesis by (simp add: fmt_d_def dec_digits)
qed

lemma digits_match:
  "length s = w \<Longrightarrow> list_all is_digit s \<Longrightarrow> matches (replicate w Digit) s"
  by (auto simp: matches_def list_all2_conv_all_nth list_all_length)

lemma uppers_match: "list_all is_upper s \<Longrightarrow> matches (replicate (length s) Upper) s"
  by (auto simp: matches_def list_all2_conv_all_nth list_all_length)

lemma matches_append: "matches p s \<Longrightarrow> matches q t \<Longrightarrow> matches (p @ q) (s @ t)"
  by (simp add: matches_def list_all2_appendI)

lemma literal_matches: "matches (map Lit s) s"
  by (simp add: matches_def list_all2_conv_all_nth)

lemma fmt_d2_matches: "n < 100 \<Longrightarrow> matches (replicate 2 Digit) (fmt_d 2 n)"
  by (rule digits_match) (simp_all add: fmt_d_length fmt_d_digits)

lemma fmt_d4_matches: "n < 10000 \<Longrightarrow> matches (replicate 4 Digit) (fmt_d 4 n)"
  by (rule digits_match) (simp_all add: fmt_d_length fmt_d_digits)

lemma format_offset_whole_minutes:
  assumes "off mod 60 = 0"
  shows "format_offset off =
           [if off < 0 then ord CHR ''-'' else ord CHR ''+'']
           @ fmt_d 2 (nat \<bar>off\<bar> div 3600) @ fmt_d 2 (nat \<bar>off\<bar> mod 3600 div 60)"
proof -
  from assms have "\<bar>off\<bar> mod 60 = 0" by presburger
  then have "nat \<bar>off\<bar> mod 60 = 0"
    by (metis abs_ge_zero nat_0 nat_mod_distrib nat_numeral zero_le_numeral)
  then show ?thesis by (simp add: format_offset_def Let_def)
qed

lemma format_offset_matches:
  assumes "off mod 60 = 0" "\<bar>off\<bar> < 86400"
  shows "matches ([Sign] @ replicate 4 Digit) (format_offset off)"
proof -
  from assms(2) have hh: "nat \<bar>off\<bar> div 3600 < 100" by linarith
  have mm: "nat \<bar>off\<bar> mod 3600 div 60 < 100"
    by (rule less_trans [of _ 60]) (simp_all add: div_less_iff_less_mult)
  have sign: "matches [Sign] [if off < 0 then ord CHR ''-'' else ord CHR ''+'']"
    by (simp add: matches_def is_sign_def)
  have "matches ([Sign] @ replicate 2 Digit @ replicate 2 Digit) (format_offset off)"
    unfolding format_offset_whole_minutes [OF assms(1)]
    by (intro matches_append sign fmt_d2_matches hh mm)
  then show ?thesis by (simp add: numeral_eq_Suc)
qed

lemma timestamp_matches:
  assumes "valid_now dt" "list_all is_upper (tzname dt)" "utcoffset dt mod 60 = 0"
  shows "matches (timestamp_pattern (length (tzname dt)))
           (strftime dt (str ''%Y-%m-%d %H:%M:%S %Z%z''))"
proof -
  have lit: "matches [Lit (ord c)] (str [c])" for c
    by (simp add: matches_def str_def)
  from assms(1) have b: "year dt < 10000" "month dt < 100" "day dt < 100" "hour dt < 100"
    "minute dt < 100" "second dt < 100" "\<bar>utcoffset dt\<bar> < 86400"
    by (simp_all add: valid_now_def)
  show ?thesis
    unfolding strftime_format timestamp_pattern_def
    by (intro matches_append lit fmt_d4_matches fmt_d2_matches b uppers_match assms(2)
        format_offset_matches assms(3))
qed

lemma short_zone_name_matches:
  assumes "valid_now dt" "short_zone_name (tzname dt)" "utcoffset dt mod 60 = 0"
  shows "matches (timestamp_pattern 3) (strftime dt (str ''%Y-%m-%d %H:%M:%S %Z%z'')) \<or>
         matches (timestamp_pattern 4) (strftime dt (str ''%Y-%m-%d %H:%M:%S %Z%z''))"
proof -
  from assms(2) have up: "list_all is_upper (tzname dt)"
    and len: "length (tzname dt) = 3 \<or> length (tzname dt) = 4"
    by (simp_all add: short_zone_name_def)
  from timestamp_matches [OF assms(1) up assms(3)] len show ?thesis by auto
qed

lemma New_York_report_matches:
  assumes "matches (timestamp_pattern 3) ts \<or> matches (timestamp_pattern 4) ts"
  shows "matches_time_report (str ''The current time in New York is '' @ ts)"
  using assms unfolding matches_time_report_def
  by (auto intro: matches_append literal_matches)

lemma docstring_timestamp:
  "strftime docstring_now (str ''%Y-%m-%d %H:%M:%S %Z%z'') = str ''2023-04-01 14:30:45 EDT-0400''"
  unfolding strftime_format
  by (simp add: docstring_now_def fmt_d_def dec.simps format_offset_def str_def ord_def)

lemma docstring_now_valid: "valid_now docstring_now"
  by (simp add: valid_now_def docstring_now_def)

lemma EDT_short: "short_zone_name (str ''EDT'')"
  by (simp add: short_zone_name_def is_upper_def str_def ord_def)

section \<open>The instant that a report shows\<close>

lemma digits_fold_zeros: "foldl (\<lambda>a c. 10 * a + (c - 48)) 0 (replicate k (48::nat)) = 0"
  by (induction k) simp_all

lemma digits_fold_dec: "foldl (\<lambda>a c. 10 * a + (c - 48)) 0 (dec n) = n"
proof (induction n rule: dec.induct)
  case (1 n)
  show ?case
  proof (cases "n < 10")
    case True
    then show ?thesis by (subst dec.simps) simp
  next
    case False
    with 1 show ?thesis by (subst dec.simps) simp
  qed
qed

lemma digits_value_fmt_d: "digits_value (fmt_d w n) = Some n"
proof -
  have "fmt_d w n \<noteq> []" by (simp add: fmt_d_def dec_nonempty)
  moreover have "foldl (\<lambda>a c. 10 * a + (c - 48)) 0 (fmt_d w n) = n"
    by (simp add: fmt_d_def digits_fold_zeros digits_fold_dec)
  ultimately show ?thesis by (simp add: digits_value_def fmt_d_digits)
qed

lemma length2E: "length s = 2 \<Longrightarrow> \<exists>a b. s = [a, b]"
  by (auto simp: length_Suc_conv numeral_2_eq_2)

lemma length4E: "length s = 4 \<Longrightarrow> \<exists>a b c d. s = [a, b, c, d]"
  by (auto simp: length_Suc_conv numeral_eq_Suc)

lemma read_civil_fields:
  assumes "length y = 4" "length mo = 2" "length d = 2" "length h = 2" "length mi = 2"
    "length s = 2"
  assumes "digits_value y = Some yv" "digits_value mo = Some mov" "digits_value d = Some dv"
    "digits_value h = Some hv" "digits_value mi = Some miv" "digits_value s = Some sv"
  shows "read_civil (y @ str ''-'' @ mo @ str ''-'' @ d @ str '' '' @ h @ str '':'' @ mi
                     @ str '':'' @ s @ str '' '' @ z)
         = Some (civil_seconds yv mov dv hv miv sv)"
proof -
  from assms(1) obtain y1 y2 y3 y4 where y: "y = [y1, y2, y3, y4]"
    using length4E by blast
  from assms(2) obtain mo1 mo2 where mo: "mo = [mo1, mo2]" using length2E by blast
  from assms(3) obtain d1 d2 where d: "d = [d1, d2]" using length2E by blast
  from assms(4) obtain h1 h2 where h: "h = [h1, h2]" using length2E by blast
  from assms(5) obtain mi1 mi2 where mi: "mi = [mi1, mi2]" using length2E by blast
  from assms(6) obtain s1 s2 where s: "s = [s1, s2]" using length2E by blast
  from assms(7-12) show ?thesis
    unfolding y mo d h mi s by (simp add: read_civil_def str_def ord_def)
qed

lemma read_civil_strftime:
  assumes "valid_now dt"
  shows "read_civil (fmt_d 4 (year dt) @ str ''-'' @ fmt_d 2 (month dt) @ str ''-''
                     @ fmt_d 2 (day dt) @ str '' '' @ fmt_d 2 (hour dt) @ str '':''
                     @ fmt_d 2 (minute dt) @ str '':'' @ fmt_d 2 (second dt) @ str '' '' @ z)
         = Some (civil_seconds (year dt) (month dt) (day dt) (hour dt) (minute dt)
                   (second dt))"
proof -
  from assms have b: "year dt < 10 ^ 4" "month dt < 10 ^ 2" "day dt < 10 ^ 2"
    "hour dt < 10 ^ 2" "minute dt < 10 ^ 2" "second dt < 10 ^ 2"
    by (simp_all add: valid_now_def)
  show ?thesis
    by (rule read_civil_fields)
      (simp_all only: fmt_d_length [OF b(1)] fmt_d_length [OF b(2)] fmt_d_length [OF b(3)]
         fmt_d_length [OF b(4)] fmt_d_length [OF b(5)] fmt_d_length [OF b(6)]
         digits_value_fmt_d zero_less_numeral)
qed

lemma is_digit_not_sign: "is_digit c \<Longrightarrow> \<not> is_sign c"
  by (auto simp: is_digit_def is_sign_def ord_def)

lemma offset_parts:
  assumes "\<bar>off\<bar> < 86400"
  shows "nat \<bar>off\<bar> div 3600 < 10 ^ 2" "nat \<bar>off\<bar> mod 3600 div 60 < 10 ^ 2"
    "nat \<bar>off\<bar> mod 60 < 10 ^ 2"
proof -
  from assms show "nat \<bar>off\<bar> div 3600 < 10 ^ 2" by simp
  have "nat \<bar>off\<bar> mod 3600 div 60 < 60" by (simp add: div_less_iff_less_mult)
  then show "nat \<bar>off\<bar> mod 3600 div 60 < 10 ^ 2" by simp
  have "nat \<bar>off\<bar> mod 60 < 60" by simp
  then show "nat \<bar>off\<bar> mod 60 < 10 ^ 2" by simp
qed

lemma offset_recombine:
  "int (nat \<bar>off\<bar> div 3600 * 3600 + nat \<bar>off\<bar> mod 3600 div 60 * 60 + nat \<bar>off\<bar> mod 60)
     = \<bar>off\<bar>"
proof -
  have "a div 3600 * 3600 + a mod 3600 div 60 * 60 + a mod 60 = a" for a :: nat
  proof -
    have "a mod 3600 mod 60 = a mod 60" by (simp add: mod_mod_cancel)
    then have "a mod 3600 div 60 * 60 + a mod 60 = a mod 3600"
      using div_mult_mod_eq [of "a mod 3600" 60] by simp
    moreover have "a div 3600 * 3600 + a mod 3600 = a"
      by (rule div_mult_mod_eq)
    ultimately show ?thesis by linarith
  qed
  from this [of "nat \<bar>off\<bar>"] show ?thesis by simp
qed

lemma format_offset_cases:
  "format_offset off =
     (if off < 0 then ord CHR ''-'' else ord CHR ''+'')
     # fmt_d 2 (nat \<bar>off\<bar> div 3600) @ fmt_d 2 (nat \<bar>off\<bar> mod 3600 div 60)
       @ (if nat \<bar>off\<bar> mod 60 \<noteq> 0 then fmt_d 2 (nat \<bar>off\<bar> mod 60) else [])"
  by (simp add: format_offset_def Let_def)

lemma sign_is_sign: "is_sign (if off < (0::int) then ord CHR ''-'' else ord CHR ''+'')"
  by (simp add: is_sign_def)

lemma read_offset_format:
  assumes "\<bar>off\<bar> < 86400"
  shows "read_offset (format_offset off) = Some off"
proof -
  let ?a = "nat \<bar>off\<bar>"
  note p = offset_parts [OF assms]
  obtain h1 h2 where hh: "fmt_d 2 (?a div 3600) = [h1, h2]"
    using length2E [OF fmt_d_length [OF p(1)]] by auto
  obtain m1 m2 where mm: "fmt_d 2 (?a mod 3600 div 60) = [m1, m2]"
    using length2E [OF fmt_d_length [OF p(2)]] by auto
  obtain s1 s2 where ss: "fmt_d 2 (?a mod 60) = [s1, s2]"
    using length2E [OF fmt_d_length [OF p(3)]] by auto
  have vh: "digits_value [h1, h2] = Some (?a div 3600)"
    using digits_value_fmt_d [of 2 "?a div 3600"] by (simp add: hh)
  have vm: "digits_value [m1, m2] = Some (?a mod 3600 div 60)"
    using digits_value_fmt_d [of 2 "?a mod 3600 div 60"] by (simp add: mm)
  have vs: "digits_value [s1, s2] = Some (?a mod 60)"
    using digits_value_fmt_d [of 2 "?a mod 60"] by (simp add: ss)
  have minus: "ord CHR ''+'' \<noteq> ord CHR ''-''" by (simp add: ord_def)
  show ?thesis
  proof (cases "?a mod 60 = 0")
    case True
    with offset_recombine [of off]
    have sum: "int (?a div 3600 * 3600 + ?a mod 3600 div 60 * 60 + 0) = \<bar>off\<bar>" by simp
    from True show ?thesis
      unfolding format_offset_cases hh mm
      using sum minus by (simp add: read_offset_def sign_is_sign vh vm)
  next
    case False
    then show ?thesis
      unfolding format_offset_cases hh mm ss
      using offset_recombine [of off] minus
      by (simp add: read_offset_def sign_is_sign vh vm vs)
  qed
qed

lemma split_offset_format:
  assumes "\<bar>off\<bar> < 86400"
  shows "split_offset (a @ format_offset off) = Some (a, format_offset off)"
proof -
  let ?a = "nat \<bar>off\<bar>"
  note p = offset_parts [OF assms]
  obtain h1 h2 where hh: "fmt_d 2 (?a div 3600) = [h1, h2]"
    using length2E [OF fmt_d_length [OF p(1)]] by auto
  obtain m1 m2 where mm: "fmt_d 2 (?a mod 3600 div 60) = [m1, m2]"
    using length2E [OF fmt_d_length [OF p(2)]] by auto
  obtain s1 s2 where ss: "fmt_d 2 (?a mod 60) = [s1, s2]"
    using length2E [OF fmt_d_length [OF p(3)]] by auto
  have "is_digit h2"
    using fmt_d_digits [of 2 "?a div 3600"] by (simp add: hh)
  then have h2: "\<not> is_sign h2" by (rule is_digit_not_sign)
  show ?thesis
  proof (cases "?a mod 60 = 0")
    case True
    then show ?thesis
      unfolding format_offset_cases hh mm
      by (simp add: split_offset_def sign_is_sign nth_append)
  next
    case False
    then show ?thesis
      unfolding format_offset_cases hh mm ss
      by (simp add: split_offset_def sign_is_sign nth_append h2)
  qed
qed

text \<open>
  The rendered time denotes the instant of the clock reading: its offset is part of it.
\<close>

lemma timestamp_instant_strftime:
  assumes "valid_now dt"
  shows "timestamp_instant (strftime dt (str ''%Y-%m-%d %H:%M:%S %Z%z''))
         = Some (posix_timestamp dt)"
proof -
  let ?civil = "fmt_d 4 (year dt) @ str ''-'' @ fmt_d 2 (month dt) @ str ''-''
      @ fmt_d 2 (day dt) @ str '' '' @ fmt_d 2 (hour dt) @ str '':''
      @ fmt_d 2 (minute dt) @ str '':'' @ fmt_d 2 (second dt) @ str '' '' @ tzname dt"
  from assms have off: "\<bar>utcoffset dt\<bar> < 86400" by (simp add: valid_now_def)
  have "strftime dt (str ''%Y-%m-%d %H:%M:%S %Z%z'') = ?civil @ format_offset (utcoffset dt)"
    by (simp add: strftime_format)
  then show ?thesis
    by (simp only: timestamp_instant_def split_offset_format [OF off] option.case prod.case
        read_civil_strftime [OF assms] read_offset_format [OF off] posix_timestamp_def)
qed

text \<open>
  Each field of the rendered time reads back to the field of the clock reading, the
  offset included.
\<close>

lemma timestamp_fields:
  assumes "length y = 4" "length mo = 2" "length d = 2" "length h = 2" "length mi = 2"
    "length s = 2"
    and ts: "ts = y @ str ''-'' @ mo @ str ''-'' @ d @ str '' '' @ h @ str '':'' @ mi
                  @ str '':'' @ s @ str '' '' @ z @ off"
  shows "take 4 ts = y" "take 2 (drop 5 ts) = mo" "take 2 (drop 8 ts) = d"
    "take 2 (drop 11 ts) = h" "take 2 (drop 14 ts) = mi" "take 2 (drop 17 ts) = s"
    "take (length z) (drop 20 ts) = z" "drop (length z) (drop 20 ts) = off"
proof -
  from assms(1) obtain y1 y2 y3 y4 where y: "y = [y1, y2, y3, y4]"
    using length4E by blast
  from assms(2) obtain mo1 mo2 where mo: "mo = [mo1, mo2]" using length2E by blast
  from assms(3) obtain d1 d2 where d: "d = [d1, d2]" using length2E by blast
  from assms(4) obtain h1 h2 where h: "h = [h1, h2]" using length2E by blast
  from assms(5) obtain mi1 mi2 where mi: "mi = [mi1, mi2]" using length2E by blast
  from assms(6) obtain s1 s2 where s: "s = [s1, s2]" using length2E by blast
  show "take 4 ts = y" "take 2 (drop 5 ts) = mo" "take 2 (drop 8 ts) = d"
    "take 2 (drop 11 ts) = h" "take 2 (drop 14 ts) = mi" "take 2 (drop 17 ts) = s"
    "take (length z) (drop 20 ts) = z" "drop (length z) (drop 20 ts) = off"
    unfolding ts y mo d h mi s by (simp_all add: str_def)
qed

lemma strftime_fields:
  assumes "valid_now dt"
    and ts: "ts = strftime dt (str ''%Y-%m-%d %H:%M:%S %Z%z'')"
  shows "digits_value (take 4 ts) = Some (year dt)"
    "digits_value (take 2 (drop 5 ts)) = Some (month dt)"
    "digits_value (take 2 (drop 8 ts)) = Some (day dt)"
    "digits_value (take 2 (drop 11 ts)) = Some (hour dt)"
    "digits_value (take 2 (drop 14 ts)) = Some (minute dt)"
    "digits_value (take 2 (drop 17 ts)) = Some (second dt)"
    "take (length (tzname dt)) (drop 20 ts) = tzname dt"
    "read_offset (drop (length (tzname dt)) (drop 20 ts)) = Some (utcoffset dt)"
proof -
  from assms(1) have b: "year dt < 10 ^ 4" "month dt < 10 ^ 2" "day dt < 10 ^ 2"
    "hour dt < 10 ^ 2" "minute dt < 10 ^ 2" "second dt < 10 ^ 2"
    and off: "\<bar>utcoffset dt\<bar> < 86400"
    by (simp_all add: valid_now_def)
  have l: "length (fmt_d 4 (year dt)) = 4" "length (fmt_d 2 (month dt)) = 2"
    "length (fmt_d 2 (day dt)) = 2" "length (fmt_d 2 (hour dt)) = 2"
    "length (fmt_d 2 (minute dt)) = 2" "length (fmt_d 2 (second dt)) = 2"
    by (simp_all only: fmt_d_length [OF b(1)] fmt_d_length [OF b(2)] fmt_d_length [OF b(3)]
         fmt_d_length [OF b(4)] fmt_d_length [OF b(5)] fmt_d_length [OF b(6)]
         zero_less_numeral)
  note f = timestamp_fields [OF l ts [unfolded strftime_format]]
  show "digits_value (take 4 ts) = Some (year dt)"
    "digits_value (take 2 (drop 5 ts)) = Some (month dt)"
    "digits_value (take 2 (drop 8 ts)) = Some (day dt)"
    "digits_value (take 2 (drop 11 ts)) = Some (hour dt)"
    "digits_value (take 2 (drop 14 ts)) = Some (minute dt)"
    "digits_value (take 2 (drop 17 ts)) = Some (second dt)"
    "take (length (tzname dt)) (drop 20 ts) = tzname dt"
    "read_offset (drop (length (tzname dt)) (drop 20 ts)) = Some (utcoffset dt)"
    by (simp_all only: f digits_value_fmt_d read_offset_format [OF off])
qed

lemma docstring_instant: "posix_timestamp docstring_now = 1680373845"
  by (simp add: posix_timestamp_def civil_seconds_def ymd2ord_def days_before_year_def
      days_before_month_def is_leap_def docstring_now_def)

text \<open>
  C4. For every city whose lower-case form is \<open>new york\<close>, on a machine that has the
  zone \<open>America/New_York\<close> and whose clock reads a year of four digits, a short zone
  name and an offset of whole minutes, \<open>get_current_time\<close> returns the success variant
  and its report is "The current time in " + city + " is " followed by the clock reading
  in that zone. The city is the input as given. The text after it has the year with four
  digits, month, day, hour, minute and second with two digits each, the zone name and the
  signed offset with four digits; each of these reads back to the field of the clock
  reading, the offset to the zone's offset from UTC, and the whole denotes the instant of
  the reading. For the input "New York" the report matches the pattern of the
  specification.
\<close>

theorem get_current_time_new_york:
  assumes "lower rt city = str ''new york''"
    and "ZoneInfo rt (str ''America/New_York'') = Some tz"
    and "valid_now (datetime_now rt tz)"
    and "short_zone_name (tzname (datetime_now rt tz))"
    and "utcoffset (datetime_now rt tz) mod 60 = 0"
  shows "\<exists>ts.
     get_current_time rt city
       = Inr (Success (str ''The current time in '' @ city @ str '' is '' @ ts)) \<and>
     (let now = datetime_now rt tz in
        ts = fmt_d 4 (year now) @ str ''-'' @ fmt_d 2 (month now) @ str ''-''
             @ fmt_d 2 (day now) @ str '' '' @ fmt_d 2 (hour now) @ str '':''
             @ fmt_d 2 (minute now) @ str '':'' @ fmt_d 2 (second now) @ str '' ''
             @ tzname now @ format_offset (utcoffset now) \<and>
        digits_value (take 4 ts) = Some (year now) \<and>
        digits_value (take 2 (drop 5 ts)) = Some (month now) \<and>
        digits_value (take 2 (drop 8 ts)) = Some (day now) \<and>
        digits_value (take 2 (drop 11 ts)) = Some (hour now) \<and>
        digits_value (take 2 (drop 14 ts)) = Some (minute now) \<and>
        digits_value (take 2 (drop 17 ts)) = Some (second now) \<and>
        take (length (tzname now)) (drop 20 ts) = tzname now \<and>
        read_offset (drop (length (tzname now)) (drop 20 ts)) = Some (utcoffset now) \<and>
        timestamp_instant ts = Some (posix_timestamp now)) \<and>
     (matches (timestamp_pattern 3) ts \<or> matches (timestamp_pattern 4) ts) \<and>
     (city = str ''New York'' \<longrightarrow>
        matches_time_report (str ''The current time in '' @ city @ str '' is '' @ ts))"
proof -
  let ?now = "datetime_now rt tz"
  let ?ts = "strftime ?now (str ''%Y-%m-%d %H:%M:%S %Z%z'')"
  have r: "get_current_time rt city =
      Inr (Success (str ''The current time in '' @ city @ str '' is '' @ ?ts))"
    by (simp add: get_current_time_match [OF assms(1)] assms(2))
  have m: "matches (timestamp_pattern 3) ?ts \<or> matches (timestamp_pattern 4) ?ts"
    by (rule short_zone_name_matches [OF assms(3-5)])
  have ny: "city = str ''New York'' \<longrightarrow>
      matches_time_report (str ''The current time in '' @ city @ str '' is '' @ ?ts)"
    using New_York_report_matches [OF m] by (simp add: str_append_left)
  note f = strftime_fields [OF assms(3) refl]
  have i: "timestamp_instant ?ts = Some (posix_timestamp ?now)"
    by (rule timestamp_instant_strftime [OF assms(3)])
  show ?thesis
    unfolding Let_def
    by (intro exI [of _ ?ts] conjI r m ny f i strftime_format)
qed

theorem get_current_time_new_york_witness:
  "lower docstring_runtime (str ''New York'') = str ''new york'' \<and>
   ZoneInfo docstring_runtime (str ''America/New_York'')
     = Some (ZoneInfo_object (str ''America/New_York'')) \<and>
   valid_now docstring_now \<and>
   short_zone_name (tzname docstring_now) \<and>
   utcoffset docstring_now mod 60 = 0 \<and>
   get_current_time docstring_runtime (str ''New York'')
     = Inr (Success (str ''The current time in New York is 2023-04-01 14:30:45 EDT-0400'')) \<and>
   matches_time_report (str ''The current time in New York is 2023-04-01 14:30:45 EDT-0400'') \<and>
   read_offset (drop 3 (drop 20 (str ''2023-04-01 14:30:45 EDT-0400''))) = Some (- 14400) \<and>
   timestamp_instant (str ''2023-04-01 14:30:45 EDT-0400'') = Some 1680373845"
proof -
  let ?tz = "ZoneInfo_object (str ''America/New_York'')"
  let ?ts = "str ''2023-04-01 14:30:45 EDT-0400''"
  have now: "datetime_now docstring_runtime ?tz = docstring_now"
    by (simp add: docstring_runtime_def)
  have z: "short_zone_name (tzname docstring_now)"
    using EDT_short by (simp add: docstring_now_def)
  have o: "utcoffset docstring_now mod 60 = 0"
    by (simp add: docstring_now_def)
  have n: "length (tzname docstring_now) = 3" "utcoffset docstring_now = - 14400"
    by (simp_all add: docstring_now_def str_def)
  have p: "str ''The current time in '' @ str ''New York'' @ str '' is '' @ ?ts
          = str ''The current time in New York is 2023-04-01 14:30:45 EDT-0400''"
    by (simp add: str_append)
  from get_current_time_new_york [of docstring_runtime "str ''New York''" ?tz,
      unfolded now, OF lower_New_York New_York_key_known docstring_now_valid z o]
  obtain ts where
    r: "get_current_time docstring_runtime (str ''New York'')
          = Inr (Success (str ''The current time in '' @ str ''New York'' @ str '' is '' @ ts))"
    and t: "ts = strftime docstring_now (str ''%Y-%m-%d %H:%M:%S %Z%z'')"
    and off: "read_offset (drop (length (tzname docstring_now)) (drop 20 ts))
                = Some (utcoffset docstring_now)"
    and i: "timestamp_instant ts = Some (posix_timestamp docstring_now)"
    and m: "matches_time_report (str ''The current time in '' @ str ''New York'' @ str '' is ''
                                 @ ts)"
    unfolding Let_def strftime_format by blast
  from t have ts: "ts = ?ts" by (simp only: docstring_timestamp)
  from r [unfolded ts p] m [unfolded ts p] off [unfolded ts n] i [unfolded ts docstring_instant]
    lower_New_York [of docstring_runtime] New_York_key_known docstring_now_valid z o
  show ?thesis by blast
qed

lemma before_fall_back_timestamp:
  "strftime before_fall_back (str ''%Y-%m-%d %H:%M:%S %Z%z'')
     = str ''2026-11-01 01:59:59 EDT-0400''"
  unfolding strftime_format
  by (simp add: before_fall_back_def fmt_d_def dec.simps format_offset_def str_def ord_def)

lemma after_fall_back_timestamp:
  "strftime after_fall_back (str ''%Y-%m-%d %H:%M:%S %Z%z'')
     = str ''2026-11-01 01:00:00 EST-0500''"
  unfolding strftime_format
  by (simp add: after_fall_back_def fmt_d_def dec.simps format_offset_def str_def ord_def)

lemma fall_back_valid: "valid_now before_fall_back" "valid_now after_fall_back"
  by (simp_all add: valid_now_def before_fall_back_def after_fall_back_def)

lemma fall_back_instants:
  "posix_timestamp before_fall_back = 1793512799"
  "posix_timestamp after_fall_back = 1793512800"
  by (simp_all add: posix_timestamp_def civil_seconds_def ymd2ord_def days_before_year_def
      days_before_month_def is_leap_def before_fall_back_def after_fall_back_def)

lemma runtime_at_simps:
  "ZoneInfo (runtime_at dt) (str ''America/New_York'')
     = Some (ZoneInfo_object (str ''America/New_York''))"
  "datetime_now (runtime_at dt) tz = dt"
  by (simp_all add: runtime_at_def docstring_runtime_def)

lemma fall_back_reports:
  "get_current_time (runtime_at before_fall_back) (str ''New York'')
     = Inr (Success (str ''The current time in New York is 2026-11-01 01:59:59 EDT-0400''))"
  "get_current_time (runtime_at after_fall_back) (str ''New York'')
     = Inr (Success (str ''The current time in New York is 2026-11-01 01:00:00 EST-0500''))"
  by (simp_all add: get_current_time_match [OF lower_New_York] runtime_at_simps
      before_fall_back_timestamp after_fall_back_timestamp str_append str_append_left)

lemma fall_back_reports_differ:
  "get_current_time (runtime_at before_fall_back) (str ''New York'')
     \<noteq> get_current_time (runtime_at after_fall_back) (str ''New York'')"
  unfolding fall_back_reports by (simp add: Success_def) (simp add: str_def ord_def)

text \<open>
  When daylight saving time ends the instant advances by a second while the civil time
  on the wall clock goes back: the order of two reports is the order of the instants
  they denote, not the order of their digits.
\<close>

lemma fall_back_local_time:
  "posix_timestamp after_fall_back = posix_timestamp before_fall_back + 1"
  "civil_seconds (year after_fall_back) (month after_fall_back) (day after_fall_back)
     (hour after_fall_back) (minute after_fall_back) (second after_fall_back)
   < civil_seconds (year before_fall_back) (month before_fall_back) (day before_fall_back)
     (hour before_fall_back) (minute before_fall_back) (second before_fall_back)"
  by (simp_all add: fall_back_instants)
    (simp add: civil_seconds_def before_fall_back_def after_fall_back_def)

text \<open>
  C8. Two calls of \<open>get_weather\<close> on "New York" return the same dictionary, whatever
  the state of the machine at each call. Two calls of \<open>get_current_time\<close> on
  "New York", the clock not going back between them, return success reports that differ
  only in the text after "The current time in New York is ", and the instant that the
  second text denotes is not before the instant that the first denotes.
\<close>

theorem weather_identical_time_non_decreasing:
  "get_weather rt1 (str ''New York'') = get_weather rt2 (str ''New York'') \<and>
   (ZoneInfo rt1 (str ''America/New_York'') = Some tz1 \<and>
    ZoneInfo rt2 (str ''America/New_York'') = Some tz2 \<and>
    valid_now (datetime_now rt1 tz1) \<and> valid_now (datetime_now rt2 tz2) \<and>
    posix_timestamp (datetime_now rt1 tz1) \<le> posix_timestamp (datetime_now rt2 tz2) \<longrightarrow>
    (\<exists>ts1 ts2 i1 i2.
       get_current_time rt1 (str ''New York'')
         = Inr (Success (str ''The current time in New York is '' @ ts1)) \<and>
       get_current_time rt2 (str ''New York'')
         = Inr (Success (str ''The current time in New York is '' @ ts2)) \<and>
       timestamp_instant ts1 = Some i1 \<and> timestamp_instant ts2 = Some i2 \<and> i1 \<le> i2))"
proof (intro conjI impI)
  show "get_weather rt1 (str ''New York'') = get_weather rt2 (str ''New York'')"
    by (simp add: get_weather_cases lower_New_York)
next
  assume h: "ZoneInfo rt1 (str ''America/New_York'') = Some tz1 \<and>
    ZoneInfo rt2 (str ''America/New_York'') = Some tz2 \<and>
    valid_now (datetime_now rt1 tz1) \<and> valid_now (datetime_now rt2 tz2) \<and>
    posix_timestamp (datetime_now rt1 tz1) \<le> posix_timestamp (datetime_now rt2 tz2)"
  let ?f = "str ''%Y-%m-%d %H:%M:%S %Z%z''"
  have r: "get_current_time rt (str ''New York'')
      = Inr (Success (str ''The current time in New York is ''
                      @ strftime (datetime_now rt tz) ?f))"
    if "ZoneInfo rt (str ''America/New_York'') = Some tz" for rt tz
    using that by (simp add: get_current_time_match [OF lower_New_York] str_append_left)
  from h have "get_current_time rt1 (str ''New York'')
      = Inr (Success (str ''The current time in New York is ''
                      @ strftime (datetime_now rt1 tz1) ?f))"
    and "get_current_time rt2 (str ''New York'')
      = Inr (Success (str ''The current time in New York is ''
                      @ strftime (datetime_now rt2 tz2) ?f))"
    and "timestamp_instant (strftime (datetime_now rt1 tz1) ?f)
      = Some (posix_timestamp (datetime_now rt1 tz1))"
    and "timestamp_instant (strftime (datetime_now rt2 tz2) ?f)
      = Some (posix_timestamp (datetime_now rt2 tz2))"
    and "posix_timestamp (datetime_now rt1 tz1) \<le> posix_timestamp (datetime_now rt2 tz2)"
    by (simp_all add: r timestamp_instant_strftime)
  then show "\<exists>ts1 ts2 i1 i2.
       get_current_time rt1 (str ''New York'')
         = Inr (Success (str ''The current time in New York is '' @ ts1)) \<and>
       get_current_time rt2 (str ''New York'')
         = Inr (Success (str ''The current time in New York is '' @ ts2)) \<and>
       timestamp_instant ts1 = Some i1 \<and> timestamp_instant ts2 = Some i2 \<and> i1 \<le> i2"
    by blast
qed

theorem weather_identical_time_non_decreasing_witness:
  "ZoneInfo (runtime_at before_fall_back) (str ''America/New_York'')
     = Some (ZoneInfo_object (str ''America/New_York'')) \<and>
   ZoneInfo (runtime_at after_fall_back) (str ''America/New_York'')
     = Some (ZoneInfo_object (str ''America/New_York'')) \<and>
   valid_now before_fall_back \<and> valid_now after_fall_back \<and>
   posix_timestamp before_fall_back \<le> posix_timestamp after_fall_back \<and>
   (\<exists>ts1 ts2 i1 i2.
      get_current_time (runtime_at before_fall_back) (str ''New York'')
        = Inr (Success (str ''The current time in New York is '' @ ts1)) \<and>
      get_current_time (runtime_at after_fall_back) (str ''New York'')
        = Inr (Success (str ''The current time in New York is '' @ ts2)) \<and>
      timestamp_instant ts1 = Some i1 \<and> timestamp_instant ts2 = Some i2 \<and> i1 \<le> i2)"
proof -
  have le: "posix_timestamp before_fall_back \<le> posix_timestamp after_fall_back"
    by (simp add: fall_back_instants)
  from weather_identical_time_non_decreasing
    [of "runtime_at before_fall_back" "runtime_at after_fall_back"
        "ZoneInfo_object (str ''America/New_York'')"
        "ZoneInfo_object (str ''America/New_York'')", unfolded runtime_at_simps]
    fall_back_valid le
  show ?thesis unfolding runtime_at_simps by blast
qed

text \<open>
  C10. The result of \<open>get_weather\<close> is the same whatever the time zone database and
  the clock are, and so is the result of \<open>get_current_time\<close> for a city that does
  not match. Only the matching branch of \<open>get_current_time\<close> reads them: there the
  result changes with the clock.
\<close>

theorem error_results_time_independent:
  "get_weather (rt\<lparr>ZoneInfo := z, datetime_now := n\<rparr>) c = get_weather rt c \<and>
   (lower rt c \<noteq> str ''new york'' \<longrightarrow>
      get_current_time (rt\<lparr>ZoneInfo := z, datetime_now := n\<rparr>) c = get_current_time rt c) \<and>
   get_current_time (runtime_at before_fall_back) (str ''New York'')
     \<noteq> get_current_time (runtime_at after_fall_back) (str ''New York'')"
proof -
  have l: "lower (rt\<lparr>ZoneInfo := z, datetime_now := n\<rparr>) c = lower rt c"
    by (simp add: lower_def)
  show ?thesis
    using fall_back_reports_differ by (simp add: get_weather_def get_current_time_def l)
qed

theorem error_results_time_independent_witness:
  "lower docstring_runtime (str ''Tokyo'') \<noteq> str ''new york'' \<and>
   get_current_time (docstring_runtime\<lparr>ZoneInfo := (\<lambda>key. None),
                                        datetime_now := (\<lambda>tz. docstring_now\<lparr>year := 2024\<rparr>)\<rparr>)
     (str ''Tokyo'')
   = get_current_time docstring_runtime (str ''Tokyo'')"
  using Tokyo_no_match [of docstring_runtime]
    error_results_time_independent [where rt = docstring_runtime and z = "\<lambda>key. None"
      and n = "\<lambda>tz. docstring_now\<lparr>year := 2024\<rparr>" and c = "str ''Tokyo''"]
  by blast

end
